theory Spec2Isabelle
  imports Main "HOL-Library.Word"
begin

section \<open>JavaScript strings\<close>

text \<open>
  A JavaScript string is a sequence of UTF-16 code units: \<open>.length\<close> counts code units,
  \<open>!==\<close> compares them one by one, and a regular expression without the \<open>u\<close> flag
  matches them one at a time. The Korean message literals of the source are written
  out as their code units.
\<close>

type_synonym cu = "16 word"
type_synonym jsstring = "cu list"

definition ascii :: "string \<Rightarrow> jsstring" where
  "ascii s = map of_char s"

text \<open>
  The code units that \<open>String.prototype.trim\<close> strips and that the class escape
  \<open>\s\<close> matches: ECMAScript's WhiteSpace and LineTerminator productions.
\<close>

definition isWhiteSpace :: "cu \<Rightarrow> bool" where
  "isWhiteSpace c \<longleftrightarrow>
     c = 0x0009 \<or> c = 0x000A \<or> c = 0x000B \<or> c = 0x000C \<or> c = 0x000D \<or> c = 0x0020 \<or>
     c = 0x00A0 \<or> c = 0x1680 \<or> (0x2000 \<le> c \<and> c \<le> 0x200A) \<or> c = 0x2028 \<or>
     c = 0x2029 \<or> c = 0x202F \<or> c = 0x205F \<or> c = 0x3000 \<or> c = 0xFEFF"

definition trim :: "jsstring \<Rightarrow> jsstring" where
  "trim s = rev (dropWhile isWhiteSpace (rev (dropWhile isWhiteSpace s)))"

section \<open>Regular expressions\<close>

text \<open>
  The fragment of the pattern syntax that \<open>emailRegex\<close> uses. An \<open>atom\<close> is what may
  stand inside a character class: a pattern character or the escape \<open>\s\<close>.
  \<open>NegClass as\<close> is \<open>[^...]\<close>, \<open>Plus r\<close> is \<open>r+\<close>.
\<close>

datatype atom = Ch cu | ClassS

fun atom_matches :: "atom \<Rightarrow> cu \<Rightarrow> bool" where
  "atom_matches (Ch a) c = (c = a)"
| "atom_matches ClassS c = isWhiteSpace c"

datatype regex =
    Zero
  | One
  | Lit cu
  | NegClass "atom list"
  | Alt regex regex
  | Seq regex regex
  | Star regex

definition Plus :: "regex \<Rightarrow> regex" where
  "Plus r = Seq r (Star r)"

fun nullable :: "regex \<Rightarrow> bool" where
  "nullable Zero = False"
| "nullable One = True"
| "nullable (Lit a) = False"
| "nullable (NegClass as) = False"
| "nullable (Alt r s) = (nullable r \<or> nullable s)"
| "nullable (Seq r s) = (nullable r \<and> nullable s)"
| "nullable (Star r) = True"

fun deriv :: "cu \<Rightarrow> regex \<Rightarrow> regex" where
  "deriv c Zero = Zero"
| "deriv c One = Zero"
| "deriv c (Lit a) = (if c = a then One else Zero)"
| "deriv c (NegClass as) = (if list_ex (\<lambda>a. atom_matches a c) as then Zero else One)"
| "deriv c (Alt r s) = Alt (deriv c r) (deriv c s)"
| "deriv c (Seq r s) =
     (if nullable r then Alt (Seq (deriv c r) s) (deriv c s) else Seq (deriv c r) s)"
| "deriv c (Star r) = Seq (deriv c r) (Star r)"

text \<open>
  \<open>test\<close> of a pattern anchored by \<open>^\<close> and \<open>$\<close> (no \<open>m\<close> or \<open>g\<close> flag): the whole
  string has to match.
\<close>

fun test :: "regex \<Rightarrow> jsstring \<Rightarrow> bool" where
  "test r [] = nullable r"
| "test r (c # cs) = test (deriv c r) cs"

text \<open>The words a pattern matches, as a set: the reference semantics of \<open>test\<close>.\<close>

inductive_set star :: "jsstring set \<Rightarrow> jsstring set" for L :: "jsstring set" where
  star_nil: "[] \<in> star L"
| star_app: "u \<in> L \<Longrightarrow> v \<in> star L \<Longrightarrow> u @ v \<in> star L"

definition conc :: "jsstring set \<Rightarrow> jsstring set \<Rightarrow> jsstring set" where
  "conc A B = {u @ v | u v. u \<in> A \<and> v \<in> B}"

fun lang :: "regex \<Rightarrow> jsstring set" where
  "lang Zero = {}"
| "lang One = {[]}"
| "lang (Lit a) = {[a]}"
| "lang (NegClass as) = {[c] | c. \<not> list_ex (\<lambda>a. atom_matches a c) as}"
| "lang (Alt r s) = lang r \<union> lang s"
| "lang (Seq r s) = conc (lang r) (lang s)"
| "lang (Star r) = star (lang r)"

text \<open>
  \<^verbatim>\<open>const emailRegex = /^[^\s@]+@[^\s@]+\.[^\s@]+$/;\<close>
\<close>

definition at_sign :: cu where
  "at_sign = 0x0040"

definition dot :: cu where
  "dot = 0x002E"

definition emailRegex :: regex where
  "emailRegex =
     Seq (Plus (NegClass [ClassS, Ch at_sign]))
       (Seq (Lit at_sign)
         (Seq (Plus (NegClass [ClassS, Ch at_sign]))
           (Seq (Lit dot)
             (Plus (NegClass [ClassS, Ch at_sign])))))"

text \<open>The part of a string after its first \<open>@\<close> (empty when there is none).\<close>

definition domainPart :: "jsstring \<Rightarrow> jsstring" where
  "domainPart s = drop 1 (dropWhile (\<lambda>c. c \<noteq> at_sign) s)"

text \<open>A code unit that \<open>[^\s@]\<close> accepts.\<close>

definition plainChar :: "cu \<Rightarrow> bool" where
  "plainChar c \<longleftrightarrow> \<not> isWhiteSpace c \<and> c \<noteq> at_sign"

definition plainWord :: "jsstring \<Rightarrow> bool" where
  "plainWord w \<longleftrightarrow> w \<noteq> [] \<and> list_all plainChar w"

section \<open>AuthService.validateSignupData\<close>

text \<open>
  The five properties of the payload that the function reads. \<open>None\<close> is a property
  that is missing (\<open>undefined\<close>); both \<open>undefined\<close> and the empty string are falsy.
\<close>

record signup_data =
  email :: "jsstring option"
  password :: "jsstring option"
  confirmPassword :: "jsstring option"
  username :: "jsstring option"
  address :: "jsstring option"

definition truthy :: "jsstring option \<Rightarrow> bool" where
  "truthy v = (case v of None \<Rightarrow> False | Some s \<Rightarrow> s \<noteq> [])"

text \<open>\<open>ValidationErrors\<close>: an object from property names to messages.\<close>

type_synonym ValidationErrors = "string \<rightharpoonup> jsstring"

text \<open>The message literals (in English: "please enter the e-mail", ...).\<close>

definition msg_email_required :: jsstring where
  "msg_email_required =
     [0xC774, 0xBA54, 0xC77C, 0xC744, 0x0020, 0xC785, 0xB825, 0xD574, 0xC8FC, 0xC138, 0xC694,
      0x002E]"

definition msg_password_required :: jsstring where
  "msg_password_required =
     [0xBE44, 0xBC00, 0xBC88, 0xD638, 0xB97C, 0x0020, 0xC785, 0xB825, 0xD574, 0xC8FC, 0xC138,
      0xC694, 0x002E]"

definition msg_confirm_required :: jsstring where
  "msg_confirm_required =
     [0xBE44, 0xBC00, 0xBC88, 0xD638, 0x0020, 0xD655, 0xC778, 0xC774, 0x0020, 0xD544, 0xC694,
      0xD569, 0xB2C8, 0xB2E4, 0x002E]"

definition msg_username_required :: jsstring where
  "msg_username_required =
     [0xB2C9, 0xB124, 0xC784, 0xC744, 0x0020, 0xC785, 0xB825, 0xD574, 0xC8FC, 0xC138, 0xC694,
      0x002E]"

definition msg_address_required :: jsstring where
  "msg_address_required =
     [0xC8FC, 0xC18C, 0xB97C, 0x0020, 0xC785, 0xB825, 0xD574, 0xC8FC, 0xC138, 0xC694, 0x002E]"

definition msg_email_format :: jsstring where
  "msg_email_format =
     [0xC62C, 0xBC14, 0xB978, 0x0020, 0xC774, 0xBA54, 0xC77C, 0x0020, 0xD615, 0xC2DD, 0xC744,
      0x0020, 0xC785, 0xB825, 0xD574, 0xC8FC, 0xC138, 0xC694, 0x002E]"

definition msg_password_length :: jsstring where
  "msg_password_length =
     [0xBE44, 0xBC00, 0xBC88, 0xD638, 0xB294, 0x0020, 0x0038, 0xC790, 0x0020, 0xC774, 0xC0C1,
      0xC774, 0xC5B4, 0xC57C, 0x0020, 0xD569, 0xB2C8, 0xB2E4, 0x002E]"

definition msg_password_mismatch :: jsstring where
  "msg_password_mismatch =
     [0xBE44, 0xBC00, 0xBC88, 0xD638, 0xAC00, 0x0020, 0xC77C, 0xCE58, 0xD558, 0xC9C0, 0x0020,
      0xC54A, 0xC2B5, 0xB2C8, 0xB2E4, 0x002E]"

text \<open>
  \<^verbatim>\<open>if (c) errors.k = v;\<close> is one step on the \<open>errors\<close> object; a later assignment to
  the same property overwrites the earlier one.
\<close>

definition assign_if :: "bool \<Rightarrow> string \<Rightarrow> jsstring \<Rightarrow> ValidationErrors \<Rightarrow> ValidationErrors" where
  "assign_if c k v errors = (if c then errors(k \<mapsto> v) else errors)"

text \<open>
  The eight steps, in the source's order. A condition \<open>data.f && ...\<close> reads the
  string only where the property is truthy.
\<close>

definition validateSignupData :: "signup_data \<Rightarrow> ValidationErrors" where
  "validateSignupData data =
     (let errors = Map.empty;
          errors = assign_if (\<not> truthy (email data)) ''email'' msg_email_required errors;
          errors = assign_if (\<not> truthy (password data)) ''password'' msg_password_required errors;
          errors = assign_if (\<not> truthy (confirmPassword data))
                     ''confirmPassword'' msg_confirm_required errors;
          errors = assign_if (\<not> truthy (username data)) ''username'' msg_username_required errors;
          errors = assign_if (\<not> truthy (address data)) ''address'' msg_address_required errors;
          errors = assign_if
                     (case email data of
                        None \<Rightarrow> False
                      | Some e \<Rightarrow> e \<noteq> [] \<and> \<not> test emailRegex e)
                     ''email'' msg_email_format errors;
          errors = assign_if
                     (case password data of
                        None \<Rightarrow> False
                      | Some p \<Rightarrow> p \<noteq> [] \<and> length p < 8)
                     ''password'' msg_password_length errors;
          errors = assign_if
                     (case (password data, confirmPassword data) of
                        (Some p, Some q) \<Rightarrow> p \<noteq> [] \<and> q \<noteq> [] \<and> p \<noteq> q
                      | _ \<Rightarrow> False)
                     ''confirmPassword'' msg_password_mismatch errors
      in errors)"

text \<open>
  The conditions of the source that write under one property name, taken together:
  \<open>fieldFails data k\<close> holds when one of the checks on property \<open>k\<close> fails.
\<close>

definition fieldFails :: "signup_data \<Rightarrow> string \<Rightarrow> bool" where
  "fieldFails data k \<longleftrightarrow>
     (k = ''email'' \<and>
        (case email data of None \<Rightarrow> True | Some e \<Rightarrow> e = [] \<or> \<not> test emailRegex e)) \<or>
     (k = ''password'' \<and>
        (case password data of None \<Rightarrow> True | Some p \<Rightarrow> p = [] \<or> length p < 8)) \<or>
     (k = ''confirmPassword'' \<and>
        (case confirmPassword data of
           None \<Rightarrow> True
         | Some q \<Rightarrow> q = [] \<or> (truthy (password data) \<and> password data \<noteq> Some q))) \<or>
     (k = ''username'' \<and> \<not> truthy (username data)) \<or>
     (k = ''address'' \<and> \<not> truthy (address data))"

section \<open>AuthService.checkDuplicate\<close>

text \<open>
  A thrown value: an \<open>Error\<close> made with a message, a \<open>TypeError\<close> that the engine
  itself raises (an instance of \<open>Error\<close> too; its message is the engine's), or a
  value that is not an \<open>Error\<close>.
\<close>

datatype thrown = ErrorObject jsstring | TypeErrorObject | NotAnError

fun instanceof_Error :: "thrown \<Rightarrow> bool" where
  "instanceof_Error (ErrorObject m) = True"
| "instanceof_Error TypeErrorObject = True"
| "instanceof_Error NotAnError = False"

text \<open>
  What \<open>response.json()\<close> can resolve to: any JSON value. An object keeps its
  members in the order of the text. A number is given by what the code can observe
  of it: whether it is truthy (neither \<open>0\<close> nor \<open>-0\<close>) and its string conversion;
  the formatting of floating-point numbers is outside the model.
\<close>

datatype json_value =
    JNull
  | JBool bool
  | JNumber bool jsstring
  | JString jsstring
  | JArray "json_value list"
  | JObject "(jsstring \<times> json_value) list"

text \<open>\<open>ToBoolean\<close>: what \<open>||\<close> tests.\<close>

fun ToBoolean :: "json_value \<Rightarrow> bool" where
  "ToBoolean JNull = False"
| "ToBoolean (JBool b) = b"
| "ToBoolean (JNumber t s) = t"
| "ToBoolean (JString s) = (s \<noteq> [])"
| "ToBoolean (JArray xs) = True"
| "ToBoolean (JObject kvs) = True"

text \<open>
  \<open>ToString\<close>, which \<open>new Error(message)\<close> applies to its argument; \<open>None\<close> is the
  \<open>TypeError\<close> of a failed conversion. An array is joined with commas, \<open>null\<close>
  elements giving the empty string. A parsed object has no callable property of its
  own: with a member named \<open>toString\<close> the conversion finds no method that returns a
  primitive and throws, otherwise \<open>Object.prototype.toString\<close> answers.
\<close>

fun ToString :: "json_value \<Rightarrow> jsstring option"
  and join :: "json_value list \<Rightarrow> jsstring option" where
  "ToString JNull = Some (ascii ''null'')"
| "ToString (JBool b) = Some (if b then ascii ''true'' else ascii ''false'')"
| "ToString (JNumber t s) = Some s"
| "ToString (JString s) = Some s"
| "ToString (JArray xs) = join xs"
| "ToString (JObject kvs) =
     (if ascii ''toString'' \<in> set (map fst kvs) then None
      else Some (ascii ''[object Object]''))"
| "join [] = Some []"
| "join (x # xs) =
     (case (if x = JNull then Some [] else ToString x) of
        None \<Rightarrow> None
      | Some s \<Rightarrow>
          if xs = [] then Some s
          else (case join xs of None \<Rightarrow> None | Some t \<Rightarrow> Some (s @ ascii '','' @ t)))"

text \<open>
  \<open>data.error\<close>: reading the property of \<open>null\<close> throws a \<open>TypeError\<close>; an object
  gives its member of that name (the last one, where the text repeats a name) or
  \<open>undefined\<close>, here \<open>None\<close>; the other values have no such property.
\<close>

fun data_error :: "json_value \<Rightarrow> thrown + json_value option" where
  "data_error JNull = Inl TypeErrorObject"
| "data_error (JObject kvs) = Inr (map_of (rev kvs) (ascii ''error''))"
| "data_error (JBool b) = Inr None"
| "data_error (JNumber t s) = Inr None"
| "data_error (JString s) = Inr None"
| "data_error (JArray xs) = Inr None"

text \<open>\<open>a || b\<close>, where \<open>b\<close> is a string literal.\<close>

definition or_else :: "json_value option \<Rightarrow> jsstring \<Rightarrow> json_value" where
  "or_else a b =
     (case a of None \<Rightarrow> JString b | Some j \<Rightarrow> if ToBoolean j then j else JString b)"

text \<open>
  What \<open>throw new Error(x)\<close> throws: the new \<open>Error\<close> with the converted message,
  or the \<open>TypeError\<close> of the conversion.
\<close>

definition throw_new_Error :: "json_value \<Rightarrow> thrown" where
  "throw_new_Error x = (case ToString x of None \<Rightarrow> TypeErrorObject | Some m \<Rightarrow> ErrorObject m)"

text \<open>
  The network is a parameter of the model: \<open>fetch\<close> maps the request to a rejection
  or to a response; a response has its \<open>ok\<close> flag and the outcome of
  \<open>response.json()\<close>, which rejects on a body that is not JSON.
\<close>

record response =
  ok :: bool
  json :: "thrown + json_value"

datatype dup_type = TypeEmail | TypeUsername

text \<open>
  The request as \<open>fetch\<close> receives it. The body is kept as the object given to
  \<open>JSON.stringify\<close>: the type and the trimmed value.
\<close>

record request =
  url :: jsstring
  http_method :: jsstring
  content_type :: jsstring
  body_type :: dup_type
  body_value :: jsstring

definition API_BASE :: jsstring where
  "API_BASE = ascii ''/api/auth''"

definition label_email :: jsstring where
  "label_email = [0xC774, 0xBA54, 0xC77C]"

definition label_username :: jsstring where
  "label_username = [0xB2C9, 0xB124, 0xC784]"

definition msg_enter_suffix :: jsstring where
  "msg_enter_suffix = [0xC744, 0x0020, 0xC785, 0xB825, 0xD574, 0xC8FC, 0xC138, 0xC694, 0x002E]"

definition msg_duplicate_fallback :: jsstring where
  "msg_duplicate_fallback =
     [0xC911, 0xBCF5, 0x0020, 0xD655, 0xC778, 0x0020, 0xC911, 0x0020, 0xC624, 0xB958, 0xAC00,
      0x0020, 0xBC1C, 0xC0DD, 0xD588, 0xC2B5, 0xB2C8, 0xB2E4, 0x002E]"

definition check_request :: "dup_type \<Rightarrow> jsstring \<Rightarrow> request" where
  "check_request type v =
     \<lparr>url = API_BASE @ ascii ''/check/'' @
              (if type = TypeEmail then ascii ''email'' else ascii ''username''),
      http_method = ascii ''POST'',
      content_type = ascii ''application/json'',
      body_type = type,
      body_value = trim v\<rparr>"

text \<open>
  The result is what the promise settles to (\<open>Inl\<close> a rejection) and the requests
  given to \<open>fetch\<close>, in order. The first \<open>throw\<close> stands before the \<open>try\<close>;
  whatever is thrown inside the \<open>try\<close> reaches the \<open>catch\<close> block, which rethrows
  an instance of \<open>Error\<close> and replaces any other value.
\<close>

definition checkDuplicate ::
  "(request \<Rightarrow> thrown + response) \<Rightarrow> dup_type \<Rightarrow> jsstring \<Rightarrow> (thrown + bool) \<times> request list"
where
  "checkDuplicate fetch type v =
     (if trim v = []
      then (Inl (ErrorObject
                  ((if type = TypeEmail then label_email else label_username) @ msg_enter_suffix)),
            [])
      else
        let req = check_request type v;
            tried =
              (case fetch req of
                 Inl e \<Rightarrow> Inl e
               | Inr response \<Rightarrow>
                   (case json response of
                      Inl e \<Rightarrow> Inl e
                    | Inr data \<Rightarrow>
                        if \<not> ok response
                        then (case data_error data of
                                Inl e \<Rightarrow> Inl e
                              | Inr x \<Rightarrow> Inl (throw_new_Error (or_else x msg_duplicate_fallback)))
                        else Inr True))
        in (case tried of
              Inl e \<Rightarrow>
                if instanceof_Error e then Inl e else Inl (ErrorObject msg_duplicate_fallback)
            | Inr b \<Rightarrow> Inr b,
            [req]))"

definition checkEmailDuplicate ::
  "(request \<Rightarrow> thrown + response) \<Rightarrow> jsstring \<Rightarrow> (thrown + bool) \<times> request list"
where
  "checkEmailDuplicate fetch e = checkDuplicate fetch TypeEmail e"

definition checkUsernameDuplicate ::
  "(request \<Rightarrow> thrown + response) \<Rightarrow> jsstring \<Rightarrow> (thrown + bool) \<times> request list"
where
  "checkUsernameDuplicate fetch u = checkDuplicate fetch TypeUsername u"

section \<open>The hook useFindId\<close>

datatype CheckStatus = StatusEmpty | StatusChecking | StatusSuccess | StatusError

record hook_state =
  st_email :: jsstring
  isChecking :: bool
  status :: CheckStatus
  message :: jsstring

definition msg_invalid_email :: jsstring where
  "msg_invalid_email =
     [0xC720, 0xD6A8, 0xD55C, 0x0020, 0xC774, 0xBA54, 0xC77C, 0x0020, 0xC8FC, 0xC18C, 0xB97C,
      0x0020, 0xC785, 0xB825, 0xD574, 0xC8FC, 0xC138, 0xC694, 0x002E]"

definition msg_not_registered :: jsstring where
  "msg_not_registered =
     [0xAC00, 0xC785, 0xB418, 0xC9C0, 0x0020, 0xC54A, 0xC740, 0x0020, 0xC774, 0xBA54, 0xC77C,
      0xC785, 0xB2C8, 0xB2E4, 0x002E]"

definition msg_registered :: jsstring where
  "msg_registered =
     [0xAC00, 0xC785, 0xB41C, 0x0020, 0xC774, 0xBA54, 0xC77C, 0xC785, 0xB2C8, 0xB2E4, 0x002E]"

definition initial_state :: hook_state where
  "initial_state = \<lparr>st_email = [], isChecking = False, status = StatusEmpty, message = []\<rparr>"

definition onChangeEmail :: "jsstring \<Rightarrow> hook_state \<Rightarrow> hook_state" where
  "onChangeEmail v s = s\<lparr>st_email := v, status := StatusEmpty, message := []\<rparr>"

text \<open>
  \<open>emailSchema\<close> is \<open>z.string().email({message})\<close> of the zod library: its email
  check is the parameter \<open>emailSchema\<close>, and a string that fails it gives one issue,
  with the configured message. The state setters are applied in the source's order;
  the result is the state once the promise of \<open>onCheckEmail\<close> has settled, with the
  requests given to \<open>fetch\<close>.
\<close>

definition onCheckEmail ::
  "(jsstring \<Rightarrow> bool) \<Rightarrow> (request \<Rightarrow> thrown + response) \<Rightarrow> hook_state
     \<Rightarrow> hook_state \<times> request list"
where
  "onCheckEmail emailSchema fetch s =
     (if \<not> emailSchema (st_email s)
      then (s\<lparr>message := msg_invalid_email, status := StatusError\<rparr>, [])
      else
        let s = s\<lparr>isChecking := True, status := StatusChecking, message := []\<rparr>;
            (settled, requests) = checkEmailDuplicate fetch (st_email s);
            s = (case settled of
                   Inr _ \<Rightarrow> s\<lparr>status := StatusError, message := msg_not_registered\<rparr>
                 | Inl _ \<Rightarrow> s\<lparr>status := StatusSuccess, message := msg_registered\<rparr>)
        in (s\<lparr>isChecking := False\<rparr>, requests))"

text \<open>
  Backends for the examples. They answer 200 with the body \<open>{}\<close>; 409 with
  \<open>{"error": "already exists"}\<close>; 409 with \<open>{"error": ""}\<close>; 409 with \<open>null\<close>;
  409 with \<open>{"error": 123}\<close>; 409 with \<open>{"error": {"toString": 1}}\<close>; and 200 with
  a body that is not JSON (an empty body).
\<close>

definition fetch_200 :: "request \<Rightarrow> thrown + response" where
  "fetch_200 req = Inr \<lparr>ok = True, json = Inr (JObject [])\<rparr>"

definition fetch_409 :: "request \<Rightarrow> thrown + response" where
  "fetch_409 req =
     Inr \<lparr>ok = False,
          json = Inr (JObject [(ascii ''error'', JString (ascii ''already exists''))])\<rparr>"

definition fetch_409_empty_error :: "request \<Rightarrow> thrown + response" where
  "fetch_409_empty_error req =
     Inr \<lparr>ok = False, json = Inr (JObject [(ascii ''error'', JString [])])\<rparr>"

definition fetch_409_null :: "request \<Rightarrow> thrown + response" where
  "fetch_409_null req = Inr \<lparr>ok = False, json = Inr JNull\<rparr>"

definition fetch_409_number :: "request \<Rightarrow> thrown + response" where
  "fetch_409_number req =
     Inr \<lparr>ok = False,
          json = Inr (JObject [(ascii ''error'', JNumber True (ascii ''123''))])\<rparr>"

definition fetch_409_no_conversion :: "request \<Rightarrow> thrown + response" where
  "fetch_409_no_conversion req =
     Inr \<lparr>ok = False,
          json = Inr (JObject [(ascii ''error'',
                    JObject [(ascii ''toString'', JNumber True (ascii ''1''))])])\<rparr>"

definition fetch_200_no_json :: "request \<Rightarrow> thrown + response" where
  "fetch_200_no_json req =
     Inr \<lparr>ok = True, json = Inl (ErrorObject (ascii ''Unexpected end of JSON input''))\<rparr>"

section \<open>Example inputs\<close>

text \<open>Payloads for \<open>validateSignupData\<close>; \<open>empty_payload\<close> is \<open>{}\<close>.\<close>

definition empty_payload :: signup_data where
  "empty_payload =
     \<lparr>email = None, password = None, confirmPassword = None, username = None, address = None\<rparr>"

definition good_payload :: signup_data where
  "good_payload =
     \<lparr>email = Some (ascii ''a@b.com''), password = Some (ascii ''abcd1234''),
      confirmPassword = Some (ascii ''abcd1234''), username = Some (ascii ''kim''),
      address = Some (ascii ''Seoul'')\<rparr>"

definition short_password_payload :: signup_data where
  "short_password_payload = good_payload\<lparr>password := Some (ascii ''abc1234'')\<rparr>"

definition mismatch_payload :: signup_data where
  "mismatch_payload = good_payload\<lparr>confirmPassword := Some (ascii ''abcd12345'')\<rparr>"

definition many_errors_payload :: signup_data where
  "many_errors_payload =
     \<lparr>email = Some (ascii ''bad-email''), password = Some (ascii ''abc1234''),
      confirmPassword = Some (ascii ''abc12345''), username = None,
      address = Some (ascii ''Seoul'')\<rparr>"

definition missing_confirm_payload :: signup_data where
  "missing_confirm_payload = good_payload\<lparr>confirmPassword := Some []\<rparr>"

text \<open>
  States of the hook after the user has typed an address; the examples run the hook
  with the pattern of \<open>validateSignupData\<close> in the place of the library's check.
\<close>

definition typed_good :: hook_state where
  "typed_good = onChangeEmail (ascii ''a@b.com'') initial_state"

definition typed_bad :: hook_state where
  "typed_bad = onChangeEmail (ascii ''bad-email'') initial_state"

section \<open>The matcher agrees with the language of the pattern\<close>

lemma conc_nil: "[] \<in> conc A B \<longleftrightarrow> [] \<in> A \<and> [] \<in> B"
  by (auto simp: conc_def)

lemma nullable_iff: "nullable r \<longleftrightarrow> [] \<in> lang r"
  by (induction r) (auto simp: conc_nil intro: star.star_nil)

lemma conc_cons:
  "c # w \<in> conc A B \<longleftrightarrow>
     (\<exists>u v. w = u @ v \<and> c # u \<in> A \<and> v \<in> B) \<or> ([] \<in> A \<and> c # w \<in> B)"
  unfolding conc_def by (auto simp: Cons_eq_append_conv)

lemma star_cons_imp:
  "x \<in> star L \<Longrightarrow> x = c # w \<Longrightarrow> \<exists>u v. c # u \<in> L \<and> v \<in> star L \<and> w = u @ v"
proof (induction arbitrary: w rule: star.induct)
  case star_nil
  then show ?case by simp
next
  case (star_app u v)
  then show ?case by (cases u) auto
qed

lemma star_cons:
  "c # w \<in> star L \<longleftrightarrow> (\<exists>u v. c # u \<in> L \<and> v \<in> star L \<and> w = u @ v)"
proof
  assume "c # w \<in> star L"
  then show "\<exists>u v. c # u \<in> L \<and> v \<in> star L \<and> w = u @ v"
    using star_cons_imp by blast
next
  assume "\<exists>u v. c # u \<in> L \<and> v \<in> star L \<and> w = u @ v"
  then obtain u v where "c # u \<in> L" "v \<in> star L" "w = u @ v" by blast
  then show "c # w \<in> star L"
    using star.star_app [of "c # u" L v] by simp
qed

lemma lang_deriv: "w \<in> lang (deriv c r) \<longleftrightarrow> c # w \<in> lang r"
proof (induction r arbitrary: w)
  case (Seq r1 r2)
  have left: "w \<in> conc (lang (deriv c r1)) (lang r2) \<longleftrightarrow>
      (\<exists>u v. w = u @ v \<and> c # u \<in> lang r1 \<and> v \<in> lang r2)"
    using Seq.IH(1) by (auto simp: conc_def)
  show ?case
    by (simp add: left Seq.IH(2) conc_cons nullable_iff)
next
  case (Star r)
  have "w \<in> conc (lang (deriv c r)) (star (lang r)) \<longleftrightarrow>
      (\<exists>u v. c # u \<in> lang r \<and> v \<in> star (lang r) \<and> w = u @ v)"
    using Star.IH by (auto simp: conc_def)
  then show ?case
    by (simp add: star_cons)
qed auto

lemma test_iff: "test r s \<longleftrightarrow> s \<in> lang r"
  by (induction s arbitrary: r) (simp_all add: nullable_iff lang_deriv)

section \<open>What emailRegex accepts\<close>

lemma star_singles_sub: "w \<in> star {[c] | c. P c} \<Longrightarrow> list_all P w"
  by (induction rule: star.induct) auto

lemma star_singles_sup: "list_all P w \<Longrightarrow> w \<in> star {[c] | c. P c}"
proof (induction w)
  case Nil
  show ?case by (rule star.star_nil)
next
  case (Cons c w)
  then have "[c] \<in> {[c] | c. P c}" and "w \<in> star {[c] | c. P c}" by auto
  then have "[c] @ w \<in> star {[c] | c. P c}" by (rule star.star_app)
  then show ?case by simp
qed

lemma lang_plain: "lang (NegClass [ClassS, Ch at_sign]) = {[c] | c. plainChar c}"
  by (auto simp: plainChar_def)

lemma lang_Plus_plain: "w \<in> lang (Plus (NegClass [ClassS, Ch at_sign])) \<longleftrightarrow> plainWord w"
proof
  assume "w \<in> lang (Plus (NegClass [ClassS, Ch at_sign]))"
  then obtain c v where "w = c # v" "plainChar c" "v \<in> star {[c] | c. plainChar c}"
    unfolding Plus_def lang.simps(6) lang.simps(7) lang_plain conc_def by auto
  then show "plainWord w"
    using star_singles_sub [of v plainChar] by (simp add: plainWord_def)
next
  assume "plainWord w"
  then obtain c v where w: "w = c # v" and c: "plainChar c" and v: "list_all plainChar v"
    by (cases w) (auto simp: plainWord_def)
  from v have "v \<in> star {[c] | c. plainChar c}" by (rule star_singles_sup)
  with c have "[c] @ v \<in> conc {[c] | c. plainChar c} (star {[c] | c. plainChar c})"
    unfolding conc_def by blast
  then show "w \<in> lang (Plus (NegClass [ClassS, Ch at_sign]))"
    unfolding Plus_def lang.simps(6) lang.simps(7) lang_plain w by simp
qed

lemma test_emailRegex_iff:
  "test emailRegex s \<longleftrightarrow>
     (\<exists>a b c. s = a @ at_sign # b @ dot # c \<and> plainWord a \<and> plainWord b \<and> plainWord c)"
proof -
  let ?P = "lang (Plus (NegClass [ClassS, Ch at_sign]))"
  have "s \<in> lang emailRegex \<longleftrightarrow>
      (\<exists>a b c. s = a @ at_sign # b @ dot # c \<and> a \<in> ?P \<and> b \<in> ?P \<and> c \<in> ?P)"
    unfolding emailRegex_def lang.simps(6) lang.simps(3) conc_def
    by (auto; blast)
  then show ?thesis
    by (simp add: test_iff lang_Plus_plain)
qed

lemma plainWord_no_at: "plainWord w \<Longrightarrow> at_sign \<notin> set w"
  by (auto simp: plainWord_def plainChar_def list_all_iff)

lemma domainPart_shape:
  "at_sign \<notin> set a \<Longrightarrow> domainPart (a @ at_sign # d) = d"
proof -
  assume "at_sign \<notin> set a"
  then have "dropWhile (\<lambda>c. c \<noteq> at_sign) (a @ at_sign # d) = dropWhile (\<lambda>c. c \<noteq> at_sign) (at_sign # d)"
    by (intro dropWhile_append2) auto
  then show ?thesis
    by (simp add: domainPart_def)
qed

section \<open>What validateSignupData stores under each property\<close>

lemma assign_if_apply: "assign_if c a v m k = (if c \<and> k = a then Some v else m k)"
  by (simp add: assign_if_def)

lemmas validate_unfold = validateSignupData_def Let_def truthy_def assign_if_apply

lemma validate_email:
  "validateSignupData d ''email'' =
     (case email d of
        None \<Rightarrow> Some msg_email_required
      | Some e \<Rightarrow> if e = [] then Some msg_email_required
                  else if \<not> test emailRegex e then Some msg_email_format else None)"
  by (simp add: validate_unfold split: option.split)

lemma validate_password:
  "validateSignupData d ''password'' =
     (case password d of
        None \<Rightarrow> Some msg_password_required
      | Some p \<Rightarrow> if p = [] then Some msg_password_required
                  else if length p < 8 then Some msg_password_length else None)"
  by (simp add: validate_unfold split: option.split)

lemma validate_confirmPassword:
  "validateSignupData d ''confirmPassword'' =
     (case confirmPassword d of
        None \<Rightarrow> Some msg_confirm_required
      | Some q \<Rightarrow> if q = [] then Some msg_confirm_required
                  else if truthy (password d) \<and> password d \<noteq> Some q
                       then Some msg_password_mismatch else None)"
  by (auto simp: validate_unfold split: option.split)

lemma validate_username:
  "validateSignupData d ''username'' =
     (if truthy (username d) then None else Some msg_username_required)"
  by (simp add: validate_unfold split: option.split)

lemma validate_address:
  "validateSignupData d ''address'' =
     (if truthy (address d) then None else Some msg_address_required)"
  by (simp add: validate_unfold split: option.split)

lemma validate_other:
  "k \<noteq> ''email'' \<Longrightarrow> k \<noteq> ''password'' \<Longrightarrow> k \<noteq> ''confirmPassword'' \<Longrightarrow>
   k \<noteq> ''username'' \<Longrightarrow> k \<noteq> ''address'' \<Longrightarrow> validateSignupData d k = None"
  by (simp add: validateSignupData_def Let_def assign_if_apply)

lemma fieldFails_email:
  "fieldFails d ''email'' \<longleftrightarrow>
     (case email d of None \<Rightarrow> True | Some e \<Rightarrow> e = [] \<or> \<not> test emailRegex e)"
  by (simp add: fieldFails_def)

lemma fieldFails_password:
  "fieldFails d ''password'' \<longleftrightarrow>
     (case password d of None \<Rightarrow> True | Some p \<Rightarrow> p = [] \<or> length p < 8)"
  by (simp add: fieldFails_def)

lemma fieldFails_confirmPassword:
  "fieldFails d ''confirmPassword'' \<longleftrightarrow>
     (case confirmPassword d of
        None \<Rightarrow> True
      | Some q \<Rightarrow> q = [] \<or> (truthy (password d) \<and> password d \<noteq> Some q))"
  by (simp add: fieldFails_def)

lemma fieldFails_username: "fieldFails d ''username'' \<longleftrightarrow> \<not> truthy (username d)"
  by (simp add: fieldFails_def)

lemma fieldFails_address: "fieldFails d ''address'' \<longleftrightarrow> \<not> truthy (address d)"
  by (simp add: fieldFails_def)

lemma fieldFails_other:
  "k \<noteq> ''email'' \<Longrightarrow> k \<noteq> ''password'' \<Longrightarrow> k \<noteq> ''confirmPassword'' \<Longrightarrow>
   k \<noteq> ''username'' \<Longrightarrow> k \<noteq> ''address'' \<Longrightarrow> \<not> fieldFails d k"
  by (simp add: fieldFails_def)

lemma validate_dom: "validateSignupData d k \<noteq> None \<longleftrightarrow> fieldFails d k"
proof -
  consider "k = ''email''" | "k = ''password''" | "k = ''confirmPassword''"
    | "k = ''username''" | "k = ''address''"
    | "k \<noteq> ''email''" "k \<noteq> ''password''" "k \<noteq> ''confirmPassword''"
      "k \<noteq> ''username''" "k \<noteq> ''address''"
    by blast
  then show ?thesis
  proof cases
    case 1
    then show ?thesis
      by (simp add: validate_email fieldFails_email split: option.split)
  next
    case 2
    then show ?thesis
      by (simp add: validate_password fieldFails_password split: option.split)
  next
    case 3
    then show ?thesis
      by (simp add: validate_confirmPassword fieldFails_confirmPassword split: option.split)
  next
    case 4
    then show ?thesis
      by (simp add: validate_username fieldFails_username)
  next
    case 5
    then show ?thesis
      by (simp add: validate_address fieldFails_address)
  next
    case 6
    then show ?thesis
      by (simp add: validate_other fieldFails_other)
  qed
qed

lemma required_not_mismatch: "msg_confirm_required \<noteq> msg_password_mismatch"
  by (simp add: msg_confirm_required_def msg_password_mismatch_def)

section \<open>The example inputs, evaluated\<close>

lemma trim_example: "trim (ascii ''a@b.com'') = ascii ''a@b.com''"
  by (simp add: trim_def ascii_def isWhiteSpace_def)

lemma test_good: "test emailRegex (ascii ''a@b.com'')"
  by (simp add: emailRegex_def Plus_def ascii_def isWhiteSpace_def at_sign_def dot_def)

lemma test_bad: "\<not> test emailRegex (ascii ''bad-email'')"
  by (simp add: emailRegex_def Plus_def ascii_def isWhiteSpace_def at_sign_def dot_def)

lemma st_email_typed:
  "st_email typed_good = ascii ''a@b.com''" "st_email typed_bad = ascii ''bad-email''"
  by (simp_all add: typed_good_def typed_bad_def onChangeEmail_def)

lemma trim_example_nonempty: "trim (ascii ''a@b.com'') \<noteq> []"
  by (simp add: trim_example) (simp add: ascii_def)

lemma check_200: "fst (checkEmailDuplicate fetch_200 (ascii ''a@b.com'')) = Inr True"
  using trim_example_nonempty
  by (simp add: checkEmailDuplicate_def checkDuplicate_def fetch_200_def)

lemma check_409:
  "fst (checkEmailDuplicate fetch_409 (ascii ''a@b.com'')) =
     Inl (ErrorObject (ascii ''already exists''))"
proof -
  have "ascii ''already exists'' \<noteq> []" by (simp add: ascii_def)
  then show ?thesis
    using trim_example_nonempty
    by (simp add: checkEmailDuplicate_def checkDuplicate_def fetch_409_def or_else_def
        throw_new_Error_def)
qed

section \<open>validateSignupData\<close>

text \<open>
  Claim C4. On a payload whose five fields are all empty (missing or the empty
  string), \<open>validateSignupData\<close> returns the object with exactly five entries: the
  required-field message under \<open>email\<close>, \<open>password\<close>, \<open>confirmPassword\<close>,
  \<open>username\<close> and \<open>address\<close>, and no other key.
\<close>

theorem validateSignupData_all_empty:
  assumes "\<not> truthy (email d)" and "\<not> truthy (password d)" and "\<not> truthy (confirmPassword d)"
    and "\<not> truthy (username d)" and "\<not> truthy (address d)"
  shows "validateSignupData d =
           [''email'' \<mapsto> msg_email_required,
            ''password'' \<mapsto> msg_password_required,
            ''confirmPassword'' \<mapsto> msg_confirm_required,
            ''username'' \<mapsto> msg_username_required,
            ''address'' \<mapsto> msg_address_required]
         \<and> dom (validateSignupData d) =
             {''email'', ''password'', ''confirmPassword'', ''username'', ''address''}
         \<and> card (dom (validateSignupData d)) = 5"
proof -
  have m: "validateSignupData d =
           [''email'' \<mapsto> msg_email_required,
            ''password'' \<mapsto> msg_password_required,
            ''confirmPassword'' \<mapsto> msg_confirm_required,
            ''username'' \<mapsto> msg_username_required,
            ''address'' \<mapsto> msg_address_required]"
    using assms
    by (auto simp: validateSignupData_def Let_def assign_if_def truthy_def split: option.splits)
  have "dom (validateSignupData d) =
      {''email'', ''password'', ''confirmPassword'', ''username'', ''address''}"
    unfolding m by auto
  then show ?thesis
    using m by simp
qed

theorem validateSignupData_all_empty_witness:
  "\<not> truthy (email empty_payload) \<and> \<not> truthy (password empty_payload) \<and>
   \<not> truthy (confirmPassword empty_payload) \<and> \<not> truthy (username empty_payload) \<and>
   \<not> truthy (address empty_payload) \<and>
   validateSignupData empty_payload =
     [''email'' \<mapsto> msg_email_required,
      ''password'' \<mapsto> msg_password_required,
      ''confirmPassword'' \<mapsto> msg_confirm_required,
      ''username'' \<mapsto> msg_username_required,
      ''address'' \<mapsto> msg_address_required] \<and>
   card (dom (validateSignupData empty_payload)) = 5"
proof -
  have h: "\<not> truthy (email empty_payload)" "\<not> truthy (password empty_payload)"
    "\<not> truthy (confirmPassword empty_payload)" "\<not> truthy (username empty_payload)"
    "\<not> truthy (address empty_payload)"
    by (simp_all add: empty_payload_def truthy_def)
  show ?thesis
    using h validateSignupData_all_empty [OF h] by blast
qed

text \<open>
  Claim C5. \<open>validateSignupData\<close> returns the empty object when the five fields are
  present, the email is well formed, and the password equals its confirmation and
  has at least 8 code units; and a present password of length 7 gets the
  password-length message under \<open>password\<close>.
\<close>

theorem validateSignupData_accepts:
  "(email d = Some (a @ at_sign # b @ dot # c) \<and> plainWord a \<and> plainWord b \<and> plainWord c \<and>
    password d = Some p \<and> confirmPassword d = Some p \<and> 8 \<le> length p \<and>
    truthy (username d) \<and> truthy (address d)
      \<longrightarrow> validateSignupData d = Map.empty) \<and>
   (password d = Some p' \<and> length p' = 7
      \<longrightarrow> validateSignupData d ''password'' = Some msg_password_length)"
proof (intro conjI impI)
  assume h: "email d = Some (a @ at_sign # b @ dot # c) \<and> plainWord a \<and> plainWord b \<and>
    plainWord c \<and> password d = Some p \<and> confirmPassword d = Some p \<and> 8 \<le> length p \<and>
    truthy (username d) \<and> truthy (address d)"
  then have e: "test emailRegex (a @ at_sign # b @ dot # c)"
    unfolding test_emailRegex_iff by blast
  have "\<not> fieldFails d k" for k
    using h e by (auto simp: fieldFails_def truthy_def)
  then have "validateSignupData d k = None" for k
    using validate_dom [of d k] by simp
  then show "validateSignupData d = Map.empty"
    by (intro ext)
next
  assume "password d = Some p' \<and> length p' = 7"
  then show "validateSignupData d ''password'' = Some msg_password_length"
    by (auto simp: validate_password)
qed

theorem validateSignupData_accepts_witness:
  "validateSignupData good_payload = Map.empty \<and>
   validateSignupData short_password_payload ''password'' = Some msg_password_length"
proof -
  have h1: "email good_payload = Some (ascii ''a'' @ at_sign # ascii ''b'' @ dot # ascii ''com'') \<and>
    plainWord (ascii ''a'') \<and> plainWord (ascii ''b'') \<and> plainWord (ascii ''com'') \<and>
    password good_payload = Some (ascii ''abcd1234'') \<and>
    confirmPassword good_payload = Some (ascii ''abcd1234'') \<and>
    8 \<le> length (ascii ''abcd1234'') \<and>
    truthy (username good_payload) \<and> truthy (address good_payload)"
    by (simp add: good_payload_def ascii_def at_sign_def dot_def plainWord_def plainChar_def
        isWhiteSpace_def truthy_def)
  have h2: "password short_password_payload = Some (ascii ''abc1234'') \<and>
    length (ascii ''abc1234'') = 7"
    by (simp add: short_password_payload_def ascii_def)
  show ?thesis
    using h1 h2
      validateSignupData_accepts [of good_payload "ascii ''a''" "ascii ''b''" "ascii ''com''"
        "ascii ''abcd1234''" "ascii ''abc1234''"]
      validateSignupData_accepts [of short_password_payload "ascii ''a''" "ascii ''b''"
        "ascii ''com''" "ascii ''abcd1234''" "ascii ''abc1234''"]
    by blast
qed

text \<open>
  Claim C6. When password and confirmation are both present and differ, the result
  has the mismatch message under \<open>confirmPassword\<close>, whatever the other fields
  are; and the checks are all collected: the keys of the result are exactly the
  properties on which some check fails.
\<close>

theorem validateSignupData_mismatch_collected:
  "(password d = Some p \<and> confirmPassword d = Some q \<and> p \<noteq> [] \<and> q \<noteq> [] \<and> p \<noteq> q
      \<longrightarrow> validateSignupData d ''confirmPassword'' = Some msg_password_mismatch) \<and>
   dom (validateSignupData d) = {k. fieldFails d k}"
proof (intro conjI impI)
  assume "password d = Some p \<and> confirmPassword d = Some q \<and> p \<noteq> [] \<and> q \<noteq> [] \<and> p \<noteq> q"
  then show "validateSignupData d ''confirmPassword'' = Some msg_password_mismatch"
    by (simp add: validate_confirmPassword truthy_def)
next
  show "dom (validateSignupData d) = {k. fieldFails d k}"
    using validate_dom [of d] by (auto simp: dom_def)
qed

theorem validateSignupData_mismatch_collected_witness:
  "validateSignupData mismatch_payload ''confirmPassword'' = Some msg_password_mismatch \<and>
   validateSignupData many_errors_payload ''confirmPassword'' = Some msg_password_mismatch \<and>
   fieldFails many_errors_payload ''email'' \<and>
   fieldFails many_errors_payload ''password'' \<and>
   fieldFails many_errors_payload ''username'' \<and>
   {''email'', ''password'', ''confirmPassword'', ''username''}
     \<subseteq> dom (validateSignupData many_errors_payload)"
proof -
  have h1: "password mismatch_payload = Some (ascii ''abcd1234'') \<and>
      confirmPassword mismatch_payload = Some (ascii ''abcd12345'') \<and>
      ascii ''abcd1234'' \<noteq> [] \<and> ascii ''abcd12345'' \<noteq> [] \<and>
      ascii ''abcd1234'' \<noteq> ascii ''abcd12345''"
    by (simp add: mismatch_payload_def good_payload_def ascii_def)
  have h2: "password many_errors_payload = Some (ascii ''abc1234'') \<and>
      confirmPassword many_errors_payload = Some (ascii ''abc12345'') \<and>
      ascii ''abc1234'' \<noteq> [] \<and> ascii ''abc12345'' \<noteq> [] \<and>
      ascii ''abc1234'' \<noteq> ascii ''abc12345''"
    by (simp add: many_errors_payload_def ascii_def)
  have e: "fieldFails many_errors_payload ''email''"
    by (simp add: fieldFails_email many_errors_payload_def ascii_def emailRegex_def Plus_def
        isWhiteSpace_def at_sign_def dot_def)
  have p: "fieldFails many_errors_payload ''password''"
    by (simp add: fieldFails_password many_errors_payload_def ascii_def)
  have c: "fieldFails many_errors_payload ''confirmPassword''"
    by (simp add: fieldFails_confirmPassword many_errors_payload_def ascii_def truthy_def)
  have u: "fieldFails many_errors_payload ''username''"
    by (simp add: fieldFails_username many_errors_payload_def truthy_def)
  note t1 = validateSignupData_mismatch_collected
    [of mismatch_payload "ascii ''abcd1234''" "ascii ''abcd12345''"]
  note t2 = validateSignupData_mismatch_collected
    [of many_errors_payload "ascii ''abc1234''" "ascii ''abc12345''"]
  from t1 h1 have r1:
    "validateSignupData mismatch_payload ''confirmPassword'' = Some msg_password_mismatch"
    by blast
  from t2 h2 have r2:
    "validateSignupData many_errors_payload ''confirmPassword'' = Some msg_password_mismatch"
    by blast
  from t2 have d: "dom (validateSignupData many_errors_payload) = {k. fieldFails many_errors_payload k}"
    by blast
  show ?thesis
    using r1 r2 e p c u unfolding d by simp
qed

text \<open>
  Claim C10. The mismatch check fires only when both fields are non-empty: with a
  non-empty password and an empty confirmation, \<open>confirmPassword\<close> maps to the
  required-field message and not to the mismatch message; and whenever it maps to
  the mismatch message, both fields are non-empty.
\<close>

theorem confirmPassword_required_not_mismatch:
  "(truthy (password d) \<and> \<not> truthy (confirmPassword d)
      \<longrightarrow> validateSignupData d ''confirmPassword'' = Some msg_confirm_required \<and>
          validateSignupData d ''confirmPassword'' \<noteq> Some msg_password_mismatch) \<and>
   (validateSignupData d ''confirmPassword'' = Some msg_password_mismatch
      \<longrightarrow> truthy (password d) \<and> truthy (confirmPassword d))"
  using required_not_mismatch
  by (auto simp: validate_confirmPassword truthy_def split: option.splits if_splits)

theorem confirmPassword_required_not_mismatch_witness:
  "truthy (password missing_confirm_payload) \<and>
   \<not> truthy (confirmPassword missing_confirm_payload) \<and>
   validateSignupData missing_confirm_payload ''confirmPassword'' = Some msg_confirm_required \<and>
   validateSignupData missing_confirm_payload ''confirmPassword'' \<noteq> Some msg_password_mismatch"
proof -
  have h: "truthy (password missing_confirm_payload) \<and>
      \<not> truthy (confirmPassword missing_confirm_payload)"
    by (simp add: missing_confirm_payload_def good_payload_def truthy_def ascii_def)
  show ?thesis
    using h confirmPassword_required_not_mismatch [of missing_confirm_payload] by blast
qed

section \<open>The email pattern\<close>

text \<open>
  Claim C7. A string without an \<open>@\<close>, or without a dot in the part after its first
  \<open>@\<close>, fails the email-format check \<open>emailRegex.test\<close>; an address
  \<open>local@domain.tld\<close> whose three parts are non-empty and hold neither white space
  nor \<open>@\<close> passes it.
\<close>

theorem emailRegex_classifies:
  "(at_sign \<notin> set s \<longrightarrow> \<not> test emailRegex s) \<and>
   (dot \<notin> set (domainPart s) \<longrightarrow> \<not> test emailRegex s) \<and>
   (plainWord a \<and> plainWord b \<and> plainWord c \<longrightarrow> test emailRegex (a @ at_sign # b @ dot # c))"
proof (intro conjI impI)
  assume "at_sign \<notin> set s"
  then show "\<not> test emailRegex s"
    by (auto simp: test_emailRegex_iff)
next
  assume nodot: "dot \<notin> set (domainPart s)"
  show "\<not> test emailRegex s"
  proof
    assume "test emailRegex s"
    then obtain a b c where s: "s = a @ at_sign # b @ dot # c" and a: "plainWord a"
      by (auto simp: test_emailRegex_iff)
    from a have "domainPart s = b @ dot # c"
      unfolding s by (intro domainPart_shape plainWord_no_at)
    with nodot show False by simp
  qed
next
  assume "plainWord a \<and> plainWord b \<and> plainWord c"
  then show "test emailRegex (a @ at_sign # b @ dot # c)"
    by (auto simp: test_emailRegex_iff)
qed

theorem emailRegex_classifies_witness:
  "at_sign \<notin> set (ascii ''bad-email'') \<and> \<not> test emailRegex (ascii ''bad-email'') \<and>
   dot \<notin> set (domainPart (ascii ''user@localhost'')) \<and>
   \<not> test emailRegex (ascii ''user@localhost'') \<and>
   plainWord (ascii ''a'') \<and> plainWord (ascii ''b'') \<and> plainWord (ascii ''com'') \<and>
   test emailRegex (ascii ''a@b.com'')"
proof -
  have h1: "at_sign \<notin> set (ascii ''bad-email'')"
    by (simp add: ascii_def at_sign_def)
  have h2: "dot \<notin> set (domainPart (ascii ''user@localhost''))"
    by (simp add: ascii_def at_sign_def dot_def domainPart_def)
  have h3: "plainWord (ascii ''a'') \<and> plainWord (ascii ''b'') \<and> plainWord (ascii ''com'')"
    by (simp add: plainWord_def plainChar_def ascii_def at_sign_def isWhiteSpace_def)
  have e: "ascii ''a'' @ at_sign # ascii ''b'' @ dot # ascii ''com'' = ascii ''a@b.com''"
    by (simp add: ascii_def at_sign_def dot_def)
  show ?thesis
    using h1 h2 h3
      emailRegex_classifies [of "ascii ''bad-email''" "ascii ''a''" "ascii ''b''" "ascii ''com''"]
      emailRegex_classifies [of "ascii ''user@localhost''" "ascii ''a''" "ascii ''b''" "ascii ''com''"]
    unfolding e by blast
qed

section \<open>checkDuplicate\<close>

text \<open>
  Claim C2. For either type, a value whose trim is empty makes \<open>checkDuplicate\<close>
  throw an \<open>Error\<close> with the "please enter" message of that type, and no request
  is given to \<open>fetch\<close>.
\<close>

theorem checkDuplicate_empty_value:
  "trim v = [] \<Longrightarrow>
     fst (checkDuplicate fetch type v) =
       Inl (ErrorObject ((if type = TypeEmail then label_email else label_username) @ msg_enter_suffix))
     \<and> snd (checkDuplicate fetch type v) = []"
  by (simp add: checkDuplicate_def)

theorem checkDuplicate_empty_value_witness:
  "trim (ascii ''   '') = [] \<and>
   fst (checkDuplicate fetch_200 TypeEmail (ascii ''   '')) =
     Inl (ErrorObject (label_email @ msg_enter_suffix)) \<and>
   snd (checkDuplicate fetch_200 TypeEmail (ascii ''   '')) = []"
proof -
  have h: "trim (ascii ''   '') = []"
    by (simp add: trim_def ascii_def isWhiteSpace_def)
  show ?thesis
    using h checkDuplicate_empty_value [OF h, of fetch_200 TypeEmail] by simp
qed

text \<open>
  Claim C3, as stated: for a value whose trim is non-empty, a response with a success
  status makes \<open>checkDuplicate\<close> resolve to \<open>true\<close>, and one with another status
  makes it throw the \<open>error\<close> field when present, else the fallback. The source
  awaits \<open>response.json()\<close> before it looks at \<open>response.ok\<close>: on a 200 whose body
  is not JSON the call rejects with the parser's error. On a 409: \<open>data.error || ...\<close>
  takes the fallback for an \<open>error\<close> field that is present and empty; the body
  \<open>null\<close> makes \<open>data.error\<close> throw a \<open>TypeError\<close>, which is rethrown; and an
  \<open>error\<close> field that has no string conversion makes \<open>new Error\<close> throw one.
\<close>

theorem checkDuplicate_outcome_counterexample:
  "trim (ascii ''a@b.com'') \<noteq> [] \<and>
   fetch_200_no_json (check_request TypeEmail (ascii ''a@b.com'')) =
     Inr \<lparr>ok = True, json = Inl (ErrorObject (ascii ''Unexpected end of JSON input''))\<rparr> \<and>
   fst (checkDuplicate fetch_200_no_json TypeEmail (ascii ''a@b.com'')) =
     Inl (ErrorObject (ascii ''Unexpected end of JSON input'')) \<and>
   fst (checkDuplicate fetch_200_no_json TypeEmail (ascii ''a@b.com'')) \<noteq> Inr True \<and>
   fst (checkDuplicate fetch_409_empty_error TypeEmail (ascii ''a@b.com'')) =
     Inl (ErrorObject msg_duplicate_fallback) \<and>
   msg_duplicate_fallback \<noteq> [] \<and>
   fst (checkDuplicate fetch_409_null TypeEmail (ascii ''a@b.com'')) = Inl TypeErrorObject \<and>
   fst (checkDuplicate fetch_409_no_conversion TypeEmail (ascii ''a@b.com'')) =
     Inl TypeErrorObject \<and>
   TypeErrorObject \<noteq> ErrorObject msg_duplicate_fallback"
  using trim_example_nonempty
  by (simp add: checkDuplicate_def fetch_200_no_json_def fetch_409_empty_error_def
      fetch_409_null_def fetch_409_no_conversion_def or_else_def throw_new_Error_def
      msg_duplicate_fallback_def)

text \<open>
  Claim C3, amended. For a value whose trim is non-empty, when \<open>fetch\<close> resolves and
  the body of the response parses as JSON: on a success status the call resolves to
  \<open>true\<close>. On another status, when the parsed body is not \<open>null\<close>, it throws an
  \<open>Error\<close> whose message is the \<open>error\<close> property of the body when that is a
  non-empty string (and, for any other truthy value that converts to a string, that
  string: \<open>123\<close> gives "123"), and the generic fallback when the property is
  missing or falsy.
\<close>

theorem checkDuplicate_outcome:
  assumes "trim v \<noteq> []"
    and "fetch (check_request type v) = Inr response"
    and "json response = Inr data"
  shows "(ok response \<longrightarrow>
            checkDuplicate fetch type v = (Inr True, [check_request type v])) \<and>
         (\<not> ok response \<and> data_error data = Inr (Some (JString e)) \<and> e \<noteq> [] \<longrightarrow>
            checkDuplicate fetch type v = (Inl (ErrorObject e), [check_request type v])) \<and>
         (\<not> ok response \<and> data_error data = Inr (Some j) \<and> ToBoolean j \<and> ToString j = Some m \<longrightarrow>
            checkDuplicate fetch type v = (Inl (ErrorObject m), [check_request type v])) \<and>
         (\<not> ok response \<and> (data_error data = Inr None \<or>
                              (data_error data = Inr (Some j) \<and> \<not> ToBoolean j)) \<longrightarrow>
            checkDuplicate fetch type v =
              (Inl (ErrorObject msg_duplicate_fallback), [check_request type v]))"
  using assms
  by (auto simp: checkDuplicate_def or_else_def throw_new_Error_def)

theorem checkDuplicate_outcome_witness:
  "trim (ascii ''a@b.com'') \<noteq> [] \<and>
   checkDuplicate fetch_409 TypeEmail (ascii ''a@b.com'') =
     (Inl (ErrorObject (ascii ''already exists'')), [check_request TypeEmail (ascii ''a@b.com'')]) \<and>
   checkDuplicate fetch_409_number TypeEmail (ascii ''a@b.com'') =
     (Inl (ErrorObject (ascii ''123'')), [check_request TypeEmail (ascii ''a@b.com'')]) \<and>
   checkDuplicate fetch_409_empty_error TypeEmail (ascii ''a@b.com'') =
     (Inl (ErrorObject msg_duplicate_fallback), [check_request TypeEmail (ascii ''a@b.com'')]) \<and>
   checkDuplicate fetch_200 TypeEmail (ascii ''a@b.com'') =
     (Inr True, [check_request TypeEmail (ascii ''a@b.com'')])"
proof -
  note h = trim_example_nonempty
  let ?req = "check_request TypeEmail (ascii ''a@b.com'')"
  let ?exists = "JObject [(ascii ''error'', JString (ascii ''already exists''))]"
  let ?number = "JObject [(ascii ''error'', JNumber True (ascii ''123''))]"
  let ?empty = "JObject [(ascii ''error'', JString [])]"
  have f1: "fetch_409 ?req = Inr \<lparr>ok = False, json = Inr ?exists\<rparr>"
    by (simp add: fetch_409_def)
  have f2: "fetch_409_number ?req = Inr \<lparr>ok = False, json = Inr ?number\<rparr>"
    by (simp add: fetch_409_number_def)
  have f3: "fetch_409_empty_error ?req = Inr \<lparr>ok = False, json = Inr ?empty\<rparr>"
    by (simp add: fetch_409_empty_error_def)
  have f4: "fetch_200 ?req = Inr \<lparr>ok = True, json = Inr (JObject [])\<rparr>"
    by (simp add: fetch_200_def)
  have n: "ascii ''already exists'' \<noteq> []"
    by (simp add: ascii_def)
  have d1: "data_error ?exists = Inr (Some (JString (ascii ''already exists'')))"
    and d2: "data_error ?number = Inr (Some (JNumber True (ascii ''123'')))"
    and d3: "data_error ?empty = Inr (Some (JString []))"
    by simp_all
  note t1 = checkDuplicate_outcome [where fetch = fetch_409 and type = TypeEmail
      and v = "ascii ''a@b.com''" and response = "\<lparr>ok = False, json = Inr ?exists\<rparr>"
      and data = ?exists and e = "ascii ''already exists''"
      and j = "JString (ascii ''already exists'')" and m = "ascii ''already exists''"]
  note t2 = checkDuplicate_outcome [where fetch = fetch_409_number and type = TypeEmail
      and v = "ascii ''a@b.com''" and response = "\<lparr>ok = False, json = Inr ?number\<rparr>"
      and data = ?number and e = "ascii ''123''"
      and j = "JNumber True (ascii ''123'')" and m = "ascii ''123''"]
  note t3 = checkDuplicate_outcome [where fetch = fetch_409_empty_error and type = TypeEmail
      and v = "ascii ''a@b.com''" and response = "\<lparr>ok = False, json = Inr ?empty\<rparr>"
      and data = ?empty and e = "[]" and j = "JString []" and m = "[]"]
  note t4 = checkDuplicate_outcome [where fetch = fetch_200 and type = TypeEmail
      and v = "ascii ''a@b.com''" and response = "\<lparr>ok = True, json = Inr (JObject [])\<rparr>"
      and data = "JObject []" and e = "[]" and j = JNull and m = "[]"]
  have r1: "checkDuplicate fetch_409 TypeEmail (ascii ''a@b.com'') =
      (Inl (ErrorObject (ascii ''already exists'')), [?req])"
    using t1 [OF h f1] d1 n by simp
  have r2: "checkDuplicate fetch_409_number TypeEmail (ascii ''a@b.com'') =
      (Inl (ErrorObject (ascii ''123'')), [?req])"
    using t2 [OF h f2] d2 by simp
  have r3: "checkDuplicate fetch_409_empty_error TypeEmail (ascii ''a@b.com'') =
      (Inl (ErrorObject msg_duplicate_fallback), [?req])"
    using t3 [OF h f3] d3 by simp
  have r4: "checkDuplicate fetch_200 TypeEmail (ascii ''a@b.com'') = (Inr True, [?req])"
    using t4 [OF h f4] by simp
  show ?thesis
    using h r1 r2 r3 r4 by simp
qed

section \<open>onCheckEmail\<close>

text \<open>
  Claim C1, as stated: after local validation, a call that resolves sets the status
  to success with the "registered" message, and a call that throws sets it to error
  with the "not registered" message. The source does the opposite in both branches:
  after the \<open>await\<close> it sets \<open>error\<close> and "not registered", in the \<open>catch\<close> block
  \<open>success\<close> and "registered".
\<close>

theorem onCheckEmail_settles_counterexample:
  "test emailRegex (st_email typed_good) \<and>
   fst (checkEmailDuplicate fetch_200 (st_email typed_good)) = Inr True \<and>
   status (fst (onCheckEmail (test emailRegex) fetch_200 typed_good)) \<noteq> StatusSuccess \<and>
   message (fst (onCheckEmail (test emailRegex) fetch_200 typed_good)) = msg_not_registered \<and>
   fst (checkEmailDuplicate fetch_409 (st_email typed_good)) =
     Inl (ErrorObject (ascii ''already exists'')) \<and>
   status (fst (onCheckEmail (test emailRegex) fetch_409 typed_good)) \<noteq> StatusError \<and>
   message (fst (onCheckEmail (test emailRegex) fetch_409 typed_good)) = msg_registered"
  by (simp add: onCheckEmail_def st_email_typed test_good check_200 check_409 split_def)

text \<open>
  Claim C1, amended. After local validation passes: if the duplicate check resolves,
  the status is \<open>error\<close> and the message says that the email is not registered; if
  it throws, the status is \<open>success\<close> and the message says that the email is
  registered.
\<close>

theorem onCheckEmail_settles:
  assumes "emailSchema (st_email s)"
  shows "(fst (checkEmailDuplicate fetch (st_email s)) = Inr b \<longrightarrow>
            status (fst (onCheckEmail emailSchema fetch s)) = StatusError \<and>
            message (fst (onCheckEmail emailSchema fetch s)) = msg_not_registered) \<and>
         (fst (checkEmailDuplicate fetch (st_email s)) = Inl e \<longrightarrow>
            status (fst (onCheckEmail emailSchema fetch s)) = StatusSuccess \<and>
            message (fst (onCheckEmail emailSchema fetch s)) = msg_registered)"
  using assms by (simp add: onCheckEmail_def split_def)

theorem onCheckEmail_settles_witness:
  "test emailRegex (st_email typed_good) \<and>
   status (fst (onCheckEmail (test emailRegex) fetch_200 typed_good)) = StatusError \<and>
   message (fst (onCheckEmail (test emailRegex) fetch_200 typed_good)) = msg_not_registered \<and>
   status (fst (onCheckEmail (test emailRegex) fetch_409 typed_good)) = StatusSuccess \<and>
   message (fst (onCheckEmail (test emailRegex) fetch_409 typed_good)) = msg_registered"
proof -
  have h: "test emailRegex (st_email typed_good)"
    by (simp add: st_email_typed test_good)
  have r: "fst (checkEmailDuplicate fetch_200 (st_email typed_good)) = Inr True"
    by (simp add: st_email_typed check_200)
  have t: "fst (checkEmailDuplicate fetch_409 (st_email typed_good)) =
      Inl (ErrorObject (ascii ''already exists''))"
    by (simp add: st_email_typed check_409)
  show ?thesis
    using h r t
      onCheckEmail_settles [where emailSchema = "test emailRegex" and s = typed_good
        and fetch = fetch_200 and b = True and e = "ErrorObject (ascii ''already exists'')"]
      onCheckEmail_settles [where emailSchema = "test emailRegex" and s = typed_good
        and fetch = fetch_409 and b = True and e = "ErrorObject (ascii ''already exists'')"]
    by simp
qed

text \<open>
  Claim C8. With an email that fails the local format check, \<open>onCheckEmail\<close> sets
  the status to \<open>error\<close> and the message to the format message, gives no request to
  \<open>fetch\<close>, and leaves \<open>isChecking\<close> as it was (false stays false).
\<close>

theorem onCheckEmail_invalid:
  assumes "\<not> emailSchema (st_email s)"
  shows "status (fst (onCheckEmail emailSchema fetch s)) = StatusError \<and>
         message (fst (onCheckEmail emailSchema fetch s)) = msg_invalid_email \<and>
         snd (onCheckEmail emailSchema fetch s) = [] \<and>
         isChecking (fst (onCheckEmail emailSchema fetch s)) = isChecking s \<and>
         st_email (fst (onCheckEmail emailSchema fetch s)) = st_email s"
  using assms by (simp add: onCheckEmail_def)

theorem onCheckEmail_invalid_witness:
  "\<not> test emailRegex (st_email typed_bad) \<and>
   status (fst (onCheckEmail (test emailRegex) fetch_200 typed_bad)) = StatusError \<and>
   message (fst (onCheckEmail (test emailRegex) fetch_200 typed_bad)) = msg_invalid_email \<and>
   snd (onCheckEmail (test emailRegex) fetch_200 typed_bad) = [] \<and>
   \<not> isChecking (fst (onCheckEmail (test emailRegex) fetch_200 typed_bad))"
proof -
  have h: "\<not> test emailRegex (st_email typed_bad)"
    by (simp add: st_email_typed test_bad)
  have i: "\<not> isChecking typed_bad"
    by (simp add: typed_bad_def onChangeEmail_def initial_state_def)
  show ?thesis
    using h i
      onCheckEmail_invalid [where emailSchema = "test emailRegex" and s = typed_bad
        and fetch = fetch_200]
    by simp
qed

text \<open>
  Claim C9. With an email that passes the local check, \<open>isChecking\<close> is false once
  the call has settled, whatever the backend did: the \<open>finally\<close> block runs after
  the resolve branch and after the throw branch.
\<close>

theorem onCheckEmail_resets_isChecking:
  assumes "emailSchema (st_email s)"
  shows "\<not> isChecking (fst (onCheckEmail emailSchema fetch s))"
  using assms by (simp add: onCheckEmail_def split_def Let_def)

theorem onCheckEmail_resets_isChecking_witness:
  "test emailRegex (st_email typed_good) \<and>
   fst (checkEmailDuplicate fetch_200 (st_email typed_good)) = Inr True \<and>
   \<not> isChecking (fst (onCheckEmail (test emailRegex) fetch_200 typed_good)) \<and>
   fst (checkEmailDuplicate fetch_409 (st_email typed_good)) =
     Inl (ErrorObject (ascii ''already exists'')) \<and>
   \<not> isChecking (fst (onCheckEmail (test emailRegex) fetch_409 typed_good))"
proof -
  have h: "test emailRegex (st_email typed_good)"
    by (simp add: st_email_typed test_good)
  show ?thesis
    using h
      onCheckEmail_resets_isChecking [where emailSchema = "test emailRegex" and s = typed_good
        and fetch = fetch_200]
      onCheckEmail_resets_isChecking [where emailSchema = "test emailRegex" and s = typed_good
        and fetch = fetch_409]
    by (simp add: st_email_typed check_200 check_409)
qed

end
